theory Spec2Isabelle
  imports Complex_Main
begin

section \<open>The MQTT service of the mushroom farm backend\<close>

text \<open>
  A shallow embedding of \<^verbatim>\<open>flask_backend/mqtt_service.py\<close> (class \<^verbatim>\<open>MQTTService\<close>) over the
  tables of \<^verbatim>\<open>flask_backend/models.py\<close>.

  \<^item> Each table is the list of its rows, in insertion order. \<^verbatim>\<open>Model.query.filter_by(..).first()\<close>
    is the first row that matches; an attribute assignment followed by
    \<^verbatim>\<open>db.session.commit()\<close> rewrites that row. Of the constraints of the tables the model
    keeps one: the column \<^verbatim>\<open>command\<close> of a command is \<^verbatim>\<open>nullable=False\<close>, and a commit of a
    row without it raises. Every other query and commit is total.
  \<^item> Identifiers (UUID columns, topic segments) are the strings of their text form.
  \<^item> Sensor values and thresholds (\<^verbatim>\<open>db.Float\<close>) are the real numbers that Python floats
    denote. Their order comparisons are exact. The subtraction of two floats rounds, and
    the model does not compute it: it is the parameter \<open>float_sub\<close>.
  \<^item> A decoded JSON body is the record of the keys the handlers read; an absent key is
    \<open>None\<close>. Bodies that are not JSON objects of that shape are not modelled.
  \<^item> Instants (\<^verbatim>\<open>datetime\<close>) are natural numbers; all \<^verbatim>\<open>datetime.utcnow()\<close> reads of one
    callback see the instant \<open>now\<close> passed to it.
  \<^item> What the service cannot decide itself is a parameter: the identifier drawn by
    \<^verbatim>\<open>uuid.uuid4\<close> for the n-th row of the command table, what the client's \<^verbatim>\<open>publish\<close>
    does (\<open>Some\<close> return code, or \<open>None\<close> when it raises), and
    \<^verbatim>\<open>datetime.fromisoformat\<close> on the text of a timestamp.
  \<^item> The calls of \<^verbatim>\<open>logger.warning\<close> and \<^verbatim>\<open>logger.error\<close> and the SocketIO emissions are
    appended to two lists of the state; \<^verbatim>\<open>logger.info\<close> and \<^verbatim>\<open>logger.debug\<close> lines are left out.
\<close>

subsection \<open>Data model (models.py)\<close>

type_synonym uuid = string
type_synonym datetime = nat
type_synonym params = "(string \<times> string) list"

text \<open>\<^verbatim>\<open>Device\<close>; \<open>d_farm_id\<close> is \<^verbatim>\<open>device.room.farm_id\<close>, read through the relationship.\<close>

record device =
  d_device_id :: uuid
  d_room_id :: uuid
  d_farm_id :: uuid
  d_status :: string
  d_last_seen :: "datetime option"
  d_firmware_version :: "string option"

text \<open>\<^verbatim>\<open>SensorData\<close>, the Reading of the specification.\<close>

record sensor_data =
  s_device_id :: uuid
  s_room_id :: uuid
  s_farm_id :: uuid
  s_temperature_c :: "real option"
  s_humidity_pct :: "real option"
  s_co2_ppm :: "real option"
  s_light_lux :: "real option"
  s_substrate_moisture :: "real option"
  s_battery_v :: "real option"
  s_recorded_at :: datetime

text \<open>\<^verbatim>\<open>Command\<close>; the column comment lists the statuses pending, sent, acked, failed.\<close>

record command =
  c_command_id :: uuid
  c_device_id :: uuid
  c_room_id :: uuid
  c_farm_id :: uuid
  c_command :: string
  c_params :: "params option"
  c_issued_by :: "uuid option"
  c_issued_at :: datetime
  c_status :: string

text \<open>
  \<^verbatim>\<open>AutomationRule\<close>. The column \<^verbatim>\<open>action_command\<close> holds JSON text; \<open>r_action_command\<close> is
  what \<^verbatim>\<open>json.loads\<close> makes of it, \<open>None\<close> when it raises. Of the decoded object,
  \<open>a_command\<close> is \<^verbatim>\<open>.get('command')\<close>, \<open>None\<close> without the key, and \<open>a_params\<close> is
  \<^verbatim>\<open>.get('params', {})\<close>. The column \<^verbatim>\<open>threshold\<close> is nullable.
\<close>

record action =
  a_command :: "string option"
  a_params :: params

record rule =
  r_rule_id :: uuid
  r_room_id :: uuid
  r_name :: string
  r_parameter :: string
  r_comparator :: string
  r_threshold :: "real option"
  r_action_device :: uuid
  r_action_command :: "action option"
  r_enabled :: bool

text \<open>\<^verbatim>\<open>Notification\<close>; the message text is kept as the values it is formatted from.\<close>

record notification =
  n_room_id :: uuid
  n_level :: string
  n_rule_name :: string
  n_parameter :: string
  n_comparator :: string
  n_threshold :: "real option"

subsection \<open>Messages\<close>

text \<open>The JSON body of an inbound telemetry or status message.\<close>

record payload =
  p_temperature_c :: "real option"
  p_humidity_pct :: "real option"
  p_co2_ppm :: "real option"
  p_light_lux :: "real option"
  p_substrate_moisture :: "real option"
  p_battery_v :: "real option"
  p_timestamp :: "string option"
  p_status :: "string option"
  p_firmware_version :: "string option"
  p_command_id :: "uuid option"
  p_ack_status :: "string option"

text \<open>
  An inbound MQTT message: \<open>m_payload\<close> is \<^verbatim>\<open>json.loads(msg.payload.decode())\<close>, \<open>None\<close>
  when that raises.
\<close>

record msg =
  m_topic :: string
  m_payload :: "payload option"

text \<open>The JSON body of an outbound command.\<close>

record cmd_payload =
  cp_command_id :: uuid
  cp_command :: string
  cp_params :: params
  cp_timestamp :: datetime

text \<open>
  The surroundings of the service: \<open>publish\<close> is \<^verbatim>\<open>client.publish(topic, ..).rc\<close>, \<open>None\<close>
  when the call raises; \<open>float_sub\<close> is the subtraction of Python floats.
\<close>

record env =
  uuid4 :: "nat \<Rightarrow> uuid"
  publish :: "string \<Rightarrow> cmd_payload \<Rightarrow> int option"
  fromisoformat :: "string \<Rightarrow> datetime option"
  float_sub :: "real \<Rightarrow> real \<Rightarrow> real"

datatype diag =
    InvalidTopicFormat string
  | UnknownMessageType string
  | JsonDecodeError
  | UnknownDevice uuid
  | TelemetryError
  | DeviceNotFound uuid
  | PublishFailed int
  | NotConnected
  | ConnectFailed int
  | ConnectionError
  | AutomationActionError
  | AutomationRulesError
  | SendCommandDatabaseError
  | SendCommandError
  | Disconnected int

datatype emit =
    MqttStatus bool
  | TelemetryData uuid uuid uuid sensor_data
  | CommandStatus uuid string
  | DeviceStatus uuid uuid uuid payload

text \<open>The service object together with the database it writes.\<close>

record state =
  devices :: "device list"
  readings :: "sensor_data list"
  commands :: "command list"
  rules :: "rule list"
  notifications :: "notification list"
  connected :: bool
  reconnect_delay :: nat
  max_reconnect_delay :: nat
  reconnect_attempts :: nat
  subscriptions :: "string list"
  socketio :: bool
  emitted :: "emit list"
  logged :: "diag list"

subsection \<open>Helpers\<close>

text \<open>Rewrite the first row that satisfies \<open>P\<close>: the row \<^verbatim>\<open>.first()\<close> returned.\<close>

fun update_first :: "('a \<Rightarrow> bool) \<Rightarrow> ('a \<Rightarrow> 'a) \<Rightarrow> 'a list \<Rightarrow> 'a list" where
  "update_first P f [] = []"
| "update_first P f (x # xs) = (if P x then f x # xs else x # update_first P f xs)"

text \<open>\<^verbatim>\<open>str.split(sep)\<close> with a one-character separator.\<close>

fun py_split :: "char \<Rightarrow> string \<Rightarrow> string list" where
  "py_split sep [] = [[]]"
| "py_split sep (c # cs) =
     (if c = sep then [] # py_split sep cs
      else (case py_split sep cs of
              [] \<Rightarrow> [[c]]
            | w # ws \<Rightarrow> (c # w) # ws))"

definition log_diag :: "diag \<Rightarrow> state \<Rightarrow> state" where
  "log_diag d st = st\<lparr>logged := logged st @ [d]\<rparr>"

text \<open>\<^verbatim>\<open>if self.socketio: self.socketio.emit(..)\<close>\<close>

definition socketio_emit :: "emit \<Rightarrow> state \<Rightarrow> state" where
  "socketio_emit e st = (if socketio st then st\<lparr>emitted := emitted st @ [e]\<rparr> else st)"

definition MQTT_ERR_SUCCESS :: int where
  "MQTT_ERR_SUCCESS = 0"

subsection \<open>Connection handling\<close>

text \<open>\<^verbatim>\<open>__init__\<close>, over a given database.\<close>

definition init :: "bool \<Rightarrow> device list \<Rightarrow> sensor_data list \<Rightarrow> command list \<Rightarrow> rule list
    \<Rightarrow> notification list \<Rightarrow> state" where
  "init sio ds ss cs rs ns =
     \<lparr>devices = ds, readings = ss, commands = cs, rules = rs, notifications = ns,
      connected = False, reconnect_delay = 5, max_reconnect_delay = 300,
      reconnect_attempts = 0, subscriptions = [], socketio = sio, emitted = [], logged = []\<rparr>"

text \<open>
  The \<^verbatim>\<open>except\<close> branch of \<^verbatim>\<open>_connect_loop\<close>: the delay slept, and the state after it.
\<close>

definition backoff_delay :: "state \<Rightarrow> nat" where
  "backoff_delay st =
     min (reconnect_delay st * (2 ^ reconnect_attempts st)) (max_reconnect_delay st)"

definition connect_error :: "state \<Rightarrow> nat \<times> state" where
  "connect_error st =
     (let st1 = (log_diag ConnectionError st)\<lparr>connected := False\<rparr>;
          delay = backoff_delay st1
      in (delay, st1\<lparr>reconnect_attempts := reconnect_attempts st1 + 1\<rparr>))"

definition subscribe_to_topics :: "state \<Rightarrow> state" where
  "subscribe_to_topics st =
     st\<lparr>subscriptions := subscriptions st @
        [''farm/+/room/+/device/+/telemetry'', ''farm/+/room/+/device/+/status'']\<rparr>"

definition on_connect :: "int \<Rightarrow> state \<Rightarrow> state" where
  "on_connect rc st =
     (if rc = 0 then
        socketio_emit (MqttStatus True)
          (subscribe_to_topics (st\<lparr>connected := True, reconnect_attempts := 0\<rparr>))
      else (log_diag (ConnectFailed rc) st)\<lparr>connected := False\<rparr>)"

definition on_disconnect :: "int \<Rightarrow> state \<Rightarrow> state" where
  "on_disconnect rc st =
     socketio_emit (MqttStatus False) (log_diag (Disconnected rc) (st\<lparr>connected := False\<rparr>))"

subsection \<open>Sending a command\<close>

definition command_topic :: "device \<Rightarrow> uuid \<Rightarrow> string" where
  "command_topic device device_id =
     ''farm/'' @ d_farm_id device @ ''/room/'' @ d_room_id device
       @ ''/device/'' @ device_id @ ''/command''"

text \<open>The row \<^verbatim>\<open>send_command\<close> adds and commits first, with status pending.\<close>

definition command_record :: "env \<Rightarrow> datetime \<Rightarrow> device \<Rightarrow> uuid \<Rightarrow> string \<Rightarrow> params option
    \<Rightarrow> uuid option \<Rightarrow> state \<Rightarrow> command" where
  "command_record e now device device_id cmd ps issued_by st =
     \<lparr>c_command_id = uuid4 e (length (commands st)), c_device_id = device_id,
      c_room_id = d_room_id device, c_farm_id = d_farm_id device, c_command = cmd,
      c_params = ps, c_issued_by = issued_by, c_issued_at = now, c_status = ''pending''\<rparr>"

definition add_command :: "command \<Rightarrow> state \<Rightarrow> state" where
  "add_command c st = st\<lparr>commands := commands st @ [c]\<rparr>"

text \<open>\<^verbatim>\<open>command_record.status = ..; db.session.commit()\<close> on the row added last.\<close>

definition set_record_status :: "string \<Rightarrow> state \<Rightarrow> state" where
  "set_record_status s st =
     st\<lparr>commands := butlast (commands st) @ [(last (commands st))\<lparr>c_status := s\<rparr>]\<rparr>"

text \<open>
  \<^verbatim>\<open>send_command\<close>. Without a command the first commit raises (the column is not
  nullable): the \<^verbatim>\<open>SQLAlchemyError\<close> handler rolls back, and no row remains. When
  \<^verbatim>\<open>client.publish\<close> raises, the last handler returns \<^verbatim>\<open>False\<close>; the row was committed
  before and keeps the status pending.
\<close>

definition send_command :: "env \<Rightarrow> datetime \<Rightarrow> uuid \<Rightarrow> string option \<Rightarrow> params option
    \<Rightarrow> uuid option \<Rightarrow> state \<Rightarrow> bool \<times> state" where
  "send_command e now device_id command ps issued_by st =
     (case find (\<lambda>d. d_device_id d = device_id) (devices st) of
        None \<Rightarrow> (False, log_diag (DeviceNotFound device_id) st)
      | Some device \<Rightarrow>
          (case command of
             None \<Rightarrow> (False, log_diag SendCommandDatabaseError st)
           | Some cmd \<Rightarrow>
               (let rec = command_record e now device device_id cmd ps issued_by st;
                    st1 = add_command rec st;
                    topic = command_topic device device_id;
                    body = \<lparr>cp_command_id = c_command_id rec, cp_command = cmd,
                            cp_params = (case ps of None \<Rightarrow> [] | Some p \<Rightarrow> p),
                            cp_timestamp = now\<rparr>
                in if connected st1 then
                     (case publish e topic body of
                        None \<Rightarrow> (False, log_diag SendCommandError st1)
                      | Some rc \<Rightarrow>
                          if rc = MQTT_ERR_SUCCESS then (True, set_record_status ''sent'' st1)
                          else (False, log_diag (PublishFailed rc)
                                         (set_record_status ''failed'' st1)))
                   else (False, log_diag NotConnected (set_record_status ''failed'' st1)))))"

subsection \<open>Automation rules\<close>

text \<open>
  \<^verbatim>\<open>_execute_automation_action\<close>: the command is sent with \<^verbatim>\<open>issued_by=None\<close>; a
  notification is stored when the send reports success.
\<close>

definition execute_automation_action :: "env \<Rightarrow> datetime \<Rightarrow> rule \<Rightarrow> sensor_data \<Rightarrow> state
    \<Rightarrow> state" where
  "execute_automation_action e now r sd st =
     (case r_action_command r of
        None \<Rightarrow> log_diag AutomationActionError st
      | Some action_command \<Rightarrow>
          (case send_command e now (r_action_device r) (a_command action_command)
                  (Some (a_params action_command)) None st of
             (success, st1) \<Rightarrow>
               if success then
                 st1\<lparr>notifications := notifications st1 @
                    [\<lparr>n_room_id = r_room_id r, n_level = ''info'', n_rule_name = r_name r,
                      n_parameter = r_parameter r, n_comparator = r_comparator r,
                      n_threshold = r_threshold r\<rparr>]\<rparr>
               else st1))"

text \<open>The \<^verbatim>\<open>if/elif\<close> chain that reads the sensor value a rule is about.\<close>

definition sensor_value :: "rule \<Rightarrow> sensor_data \<Rightarrow> real option" where
  "sensor_value r sd =
     (if r_parameter r = ''temperature'' then s_temperature_c sd
      else if r_parameter r = ''humidity'' then s_humidity_pct sd
      else if r_parameter r = ''co2'' then s_co2_ppm sd
      else if r_parameter r = ''light'' then s_light_lux sd
      else if r_parameter r = ''substrate_moisture'' then s_substrate_moisture sd
      else None)"

text \<open>The float \<^verbatim>\<open>0.01\<close>: the double nearest to 1/100.\<close>

definition float_0_01 :: real where
  "float_0_01 = 5764607523034235 / 2 ^ 59"

text \<open>
  The \<^verbatim>\<open>if/elif\<close> chain that computes \<^verbatim>\<open>condition_met\<close>. \<open>None\<close> is the \<^verbatim>\<open>TypeError\<close> of a
  comparison or subtraction with the threshold \<^verbatim>\<open>None\<close>.
\<close>

definition condition_met :: "env \<Rightarrow> rule \<Rightarrow> real \<Rightarrow> bool option" where
  "condition_met e r v =
     (if r_comparator r = ''<'' then map_option (\<lambda>t. v < t) (r_threshold r)
      else if r_comparator r = ''>'' then map_option (\<lambda>t. v > t) (r_threshold r)
      else if r_comparator r = ''<='' then map_option (\<lambda>t. v \<le> t) (r_threshold r)
      else if r_comparator r = ''>='' then map_option (\<lambda>t. v \<ge> t) (r_threshold r)
      else if r_comparator r = ''=='' then
        map_option (\<lambda>t. \<bar>float_sub e v t\<bar> < float_0_01) (r_threshold r)
      else Some False)"

text \<open>
  The \<^verbatim>\<open>for rule in rules\<close> loop of \<^verbatim>\<open>_check_automation_rules\<close> inside its \<^verbatim>\<open>try\<close>, with the
  action it calls as the argument \<open>exec\<close> and the \<^verbatim>\<open>except\<close> branch as the argument \<open>err\<close>:
  a comparison that raises ends the loop, and the rules after it are not looked at.
\<close>

fun rules_loop :: "env \<Rightarrow> (rule \<Rightarrow> sensor_data \<Rightarrow> 's \<Rightarrow> 's) \<Rightarrow> ('s \<Rightarrow> 's) \<Rightarrow> rule list
    \<Rightarrow> sensor_data \<Rightarrow> 's \<Rightarrow> 's" where
  "rules_loop e exec err [] sd st = st"
| "rules_loop e exec err (r # rs) sd st =
     (case sensor_value r sd of
        None \<Rightarrow> rules_loop e exec err rs sd st
      | Some v \<Rightarrow>
          (case condition_met e r v of
             None \<Rightarrow> err st
           | Some condition \<Rightarrow>
               if condition then rules_loop e exec err rs sd (exec r sd st)
               else rules_loop e exec err rs sd st))"

text \<open>\<^verbatim>\<open>AutomationRule.query.filter_by(room_id=room_id, enabled=True).all()\<close>\<close>

definition enabled_rules :: "uuid \<Rightarrow> state \<Rightarrow> rule list" where
  "enabled_rules room_id st = filter (\<lambda>r. r_room_id r = room_id \<and> r_enabled r) (rules st)"

definition check_automation_rules :: "env \<Rightarrow> datetime \<Rightarrow> uuid \<Rightarrow> sensor_data \<Rightarrow> state \<Rightarrow> state" where
  "check_automation_rules e now room_id sd st =
     rules_loop e (execute_automation_action e now) (log_diag AutomationRulesError)
       (enabled_rules room_id st) sd st"

subsection \<open>Inbound messages\<close>

text \<open>
  The argument of \<^verbatim>\<open>recorded_at\<close>:
  \<^verbatim>\<open>datetime.fromisoformat(payload.get('timestamp', datetime.utcnow().isoformat()))\<close>.
  Without the key the text parsed is the ISO form of the present instant, which
  \<^verbatim>\<open>fromisoformat\<close> reads back as that instant. \<open>None\<close> is the \<^verbatim>\<open>ValueError\<close> of a text that
  does not parse.
\<close>

definition recorded_at :: "env \<Rightarrow> datetime \<Rightarrow> payload \<Rightarrow> datetime option" where
  "recorded_at e now body =
     (case p_timestamp body of
        None \<Rightarrow> Some now
      | Some text \<Rightarrow> fromisoformat e text)"

text \<open>The row \<^verbatim>\<open>SensorData(..)\<close> builds from the topic segments and the body.\<close>

definition new_reading :: "uuid \<Rightarrow> uuid \<Rightarrow> uuid \<Rightarrow> payload \<Rightarrow> datetime \<Rightarrow> sensor_data" where
  "new_reading farm_id room_id device_id body t =
     \<lparr>s_device_id = device_id, s_room_id = room_id, s_farm_id = farm_id,
      s_temperature_c = p_temperature_c body,
      s_humidity_pct = p_humidity_pct body,
      s_co2_ppm = p_co2_ppm body,
      s_light_lux = p_light_lux body,
      s_substrate_moisture = p_substrate_moisture body,
      s_battery_v = p_battery_v body,
      s_recorded_at = t\<rparr>"

text \<open>\<^verbatim>\<open>device.last_seen = datetime.utcnow(); device.status = 'online'\<close>\<close>

definition mark_online :: "datetime \<Rightarrow> uuid \<Rightarrow> state \<Rightarrow> state" where
  "mark_online now device_id st =
     st\<lparr>devices := update_first (\<lambda>d. d_device_id d = device_id)
          (\<lambda>d. d\<lparr>d_last_seen := Some now, d_status := ''online''\<rparr>) (devices st)\<rparr>"

text \<open>\<^verbatim>\<open>db.session.add(sensor_data); db.session.commit()\<close>\<close>

definition add_reading :: "sensor_data \<Rightarrow> state \<Rightarrow> state" where
  "add_reading sd st = st\<lparr>readings := readings st @ [sd]\<rparr>"

text \<open>
  \<^verbatim>\<open>_handle_telemetry\<close>. When \<^verbatim>\<open>fromisoformat\<close> raises, nothing has been committed, and the
  assignments to the device are dropped with the session when the application context
  is left.
\<close>

definition handle_telemetry :: "env \<Rightarrow> datetime \<Rightarrow> uuid \<Rightarrow> uuid \<Rightarrow> uuid \<Rightarrow> payload \<Rightarrow> state
    \<Rightarrow> state" where
  "handle_telemetry e now farm_id room_id device_id body st =
     (case find (\<lambda>d. d_device_id d = device_id) (devices st) of
        None \<Rightarrow> log_diag (UnknownDevice device_id) st
      | Some device \<Rightarrow>
          (case recorded_at e now body of
             None \<Rightarrow> log_diag TelemetryError st
           | Some t \<Rightarrow>
               (let sd = new_reading farm_id room_id device_id body t;
                    st1 = add_reading sd (mark_online now device_id st);
                    st2 = socketio_emit (TelemetryData farm_id room_id device_id sd) st1
                in check_automation_rules e now room_id sd st2)))"

text \<open>The value \<^verbatim>\<open>payload.get('ack_status', 'acked')\<close>.\<close>

definition ack_status :: "payload \<Rightarrow> string" where
  "ack_status body = (case p_ack_status body of None \<Rightarrow> ''acked'' | Some s \<Rightarrow> s)"

text \<open>The first block of \<^verbatim>\<open>_handle_status\<close>: the liveness fields of the device.\<close>

definition update_device_status :: "datetime \<Rightarrow> uuid \<Rightarrow> payload \<Rightarrow> state \<Rightarrow> state" where
  "update_device_status now device_id body st =
     st\<lparr>devices := update_first (\<lambda>d. d_device_id d = device_id)
          (\<lambda>d. (d\<lparr>d_last_seen := Some now,
                   d_status := (case p_status body of None \<Rightarrow> ''online'' | Some s \<Rightarrow> s)\<rparr>)
                \<lparr>d_firmware_version :=
                   (case p_firmware_version body of
                      None \<Rightarrow> d_firmware_version d
                    | Some v \<Rightarrow> Some v)\<rparr>)
          (devices st)\<rparr>"

text \<open>The second block of \<^verbatim>\<open>_handle_status\<close>: command acknowledgments.\<close>

definition handle_ack :: "payload \<Rightarrow> state \<Rightarrow> state" where
  "handle_ack body st =
     (case p_command_id body of
        None \<Rightarrow> st
      | Some cid \<Rightarrow>
          (case find (\<lambda>c. c_command_id c = cid) (commands st) of
             None \<Rightarrow> st
           | Some cmd \<Rightarrow>
               socketio_emit (CommandStatus (c_command_id cmd) (ack_status body))
                 (st\<lparr>commands := update_first (\<lambda>c. c_command_id c = cid)
                          (\<lambda>c. c\<lparr>c_status := ack_status body\<rparr>) (commands st)\<rparr>)))"

definition handle_status :: "datetime \<Rightarrow> uuid \<Rightarrow> uuid \<Rightarrow> uuid \<Rightarrow> payload \<Rightarrow> state \<Rightarrow> state" where
  "handle_status now farm_id room_id device_id body st =
     socketio_emit (DeviceStatus farm_id room_id device_id body)
       (handle_ack body (update_device_status now device_id body st))"

text \<open>\<^verbatim>\<open>_on_message\<close>\<close>

definition on_message :: "env \<Rightarrow> datetime \<Rightarrow> msg \<Rightarrow> state \<Rightarrow> state" where
  "on_message e now m st =
     (case m_payload m of
        None \<Rightarrow> log_diag JsonDecodeError st
      | Some body \<Rightarrow>
          (let topic_parts = py_split (CHR ''/'') (m_topic m)
           in if length topic_parts \<ge> 6 then
                (let farm_id = topic_parts ! 1;
                     room_id = topic_parts ! 3;
                     device_id = topic_parts ! 5;
                     message_type = (if length topic_parts > 6 then topic_parts ! 6
                                     else ''unknown'')
                 in if message_type = ''telemetry'' then
                      handle_telemetry e now farm_id room_id device_id body st
                    else if message_type = ''status'' then
                      handle_status now farm_id room_id device_id body st
                    else log_diag (UnknownMessageType message_type) st)
              else log_diag (InvalidTopicFormat (m_topic m)) st))"

subsection \<open>Runs of the service\<close>

text \<open>
  What can happen to the service: a message arrives, a caller sends a command, the
  connection loop catches an exception, sleeps while connected, or the client calls
  back. Each event carries the instant at which it happens.
\<close>

datatype event =
    Message msg
  | SendCommand uuid "string option" "params option" "uuid option"
  | ConnectError
  | Idle
  | OnConnect int
  | OnDisconnect int

fun step :: "env \<Rightarrow> datetime \<times> event \<Rightarrow> state \<Rightarrow> state" where
  "step e (now, Message m) st = on_message e now m st"
| "step e (now, SendCommand device_id cmd ps issued_by) st =
     snd (send_command e now device_id cmd ps issued_by st)"
| "step e (now, ConnectError) st = snd (connect_error st)"
| "step e (now, Idle) st = st"
| "step e (now, OnConnect rc) st = on_connect rc st"
| "step e (now, OnDisconnect rc) st = on_disconnect rc st"

fun run :: "env \<Rightarrow> (datetime \<times> event) list \<Rightarrow> state \<Rightarrow> state" where
  "run e [] st = st"
| "run e (ev # evs) st = run e evs (step e ev st)"

subsection \<open>Notions used in the statements\<close>

text \<open>
  The delays slept by \<open>n\<close> consecutive passes through the \<^verbatim>\<open>except\<close> branch of
  \<^verbatim>\<open>_connect_loop\<close>.
\<close>

fun connect_errors :: "nat \<Rightarrow> state \<Rightarrow> nat list" where
  "connect_errors 0 st = []"
| "connect_errors (Suc n) st =
     (case connect_error st of (delay, st') \<Rightarrow> delay # connect_errors n st')"

text \<open>The fields no operation of the service writes.\<close>

definition settings :: "state \<Rightarrow> nat \<times> nat \<times> bool \<times> rule list" where
  "settings st = (reconnect_delay st, max_reconnect_delay st, socketio st, rules st)"

text \<open>
  The rules on which the loop of \<^verbatim>\<open>_check_automation_rules\<close> calls its action, in the order
  of the calls: the loop run with an action that only records the rule.
\<close>

definition action_calls :: "env \<Rightarrow> rule list \<Rightarrow> sensor_data \<Rightarrow> rule list" where
  "action_calls e rs sd = rules_loop e (\<lambda>r sd calls. calls @ [r]) (\<lambda>calls. calls) rs sd []"

text \<open>The condition of a rule is met by the reading; evaluating the rule raises.\<close>

definition rule_fires :: "env \<Rightarrow> rule \<Rightarrow> sensor_data \<Rightarrow> bool" where
  "rule_fires e r sd =
     (case sensor_value r sd of None \<Rightarrow> False | Some v \<Rightarrow> condition_met e r v = Some True)"

definition rule_raises :: "env \<Rightarrow> rule \<Rightarrow> sensor_data \<Rightarrow> bool" where
  "rule_raises e r sd =
     (case sensor_value r sd of None \<Rightarrow> False | Some v \<Rightarrow> condition_met e r v = None)"


text \<open>The row at index \<open>i\<close> of the command table exists and is sent, acked or failed.\<close>

definition settled_row :: "nat \<Rightarrow> state \<Rightarrow> bool" where
  "settled_row i st =
     (i < length (commands st)
      \<and> (c_status (commands st ! i) = ''sent'' \<or> c_status (commands st ! i) = ''acked''
         \<or> c_status (commands st ! i) = ''failed''))"

text \<open>
  An event that, when it is a message with a decoded body, declares acked or failed
  (a body without the key \<^verbatim>\<open>ack_status\<close> declares acked).
\<close>

definition declares_outcome :: "event \<Rightarrow> bool" where
  "declares_outcome ev =
     (case ev of
        Message m \<Rightarrow>
          (case m_payload m of
             None \<Rightarrow> True
           | Some body \<Rightarrow> ack_status body = ''acked'' \<or> ack_status body = ''failed'')
      | _ \<Rightarrow> True)"

definition is_message :: "event \<Rightarrow> bool" where
  "is_message ev = (case ev of Message m \<Rightarrow> True | _ \<Rightarrow> False)"

subsection \<open>A small farm\<close>

text \<open>
  One device \<^verbatim>\<open>xyz\<close> in room \<^verbatim>\<open>r1\<close> of farm \<^verbatim>\<open>abc\<close>, a rule on the temperature and a rule
  on the battery, and a broker that accepts every publish (\<open>example_env\<close>), refuses every
  publish (\<open>refusing_env\<close>), or whose client raises on every publish (\<open>raising_env\<close>). The
  floats of the examples are multiples of 1/128 of small size, on which the subtraction
  of floats is exact.
\<close>

definition example_env :: env where
  "example_env =
     \<lparr>uuid4 = (\<lambda>n. if n = 0 then ''c0'' else ''c1''),
      publish = (\<lambda>topic body. Some 0),
      fromisoformat = (\<lambda>text. if text = ''2024-05-01T12:00:00'' then Some 1714564800 else None),
      float_sub = (\<lambda>a b. a - b)\<rparr>"

definition refusing_env :: env where
  "refusing_env = example_env\<lparr>publish := (\<lambda>topic body. Some 1)\<rparr>"

definition raising_env :: env where
  "raising_env = example_env\<lparr>publish := (\<lambda>topic body. None)\<rparr>"

definition example_device :: device where
  "example_device =
     \<lparr>d_device_id = ''xyz'', d_room_id = ''r1'', d_farm_id = ''abc'', d_status = ''offline'',
      d_last_seen = None, d_firmware_version = None\<rparr>"

definition example_rule :: rule where
  "example_rule =
     \<lparr>r_rule_id = ''rule1'', r_room_id = ''r1'', r_name = ''cool'', r_parameter = ''temperature'',
      r_comparator = ''>'', r_threshold = Some 28, r_action_device = ''xyz'',
      r_action_command = Some \<lparr>a_command = Some ''fan_on'', a_params = []\<rparr>, r_enabled = True\<rparr>"

definition battery_rule :: rule where
  "battery_rule =
     example_rule\<lparr>r_rule_id := ''rule2'', r_parameter := ''battery'', r_threshold := Some 3\<rparr>"

definition empty_body :: payload where
  "empty_body =
     \<lparr>p_temperature_c = None, p_humidity_pct = None, p_co2_ppm = None, p_light_lux = None,
      p_substrate_moisture = None, p_battery_v = None, p_timestamp = None, p_status = None,
      p_firmware_version = None, p_command_id = None, p_ack_status = None\<rparr>"

definition telemetry_body :: payload where
  "telemetry_body = empty_body\<lparr>p_temperature_c := Some 30, p_battery_v := Some 5\<rparr>"

definition warm_reading :: sensor_data where
  "warm_reading = new_reading ''abc'' ''r1'' ''xyz'' telemetry_body 7"

definition example_state :: state where
  "example_state =
     on_connect 0 (init False [example_device] [] [] [example_rule, battery_rule] [])"

text \<open>The acknowledgment the simulated device publishes for command \<^verbatim>\<open>c0\<close>.\<close>

definition ack_c0 :: msg where
  "ack_c0 =
     \<lparr>m_topic = ''farm/abc/room/r1/device/xyz/status'',
      m_payload = Some (empty_body\<lparr>p_status := Some ''acked'', p_command_id := Some ''c0''\<rparr>)\<rparr>"

definition sent_state :: state where
  "sent_state =
     snd (send_command example_env 0 ''xyz'' (Some ''fan_on'') None None example_state)"

definition example_command :: command where
  "example_command =
     \<lparr>c_command_id = ''c0'', c_device_id = ''xyz'', c_room_id = ''r1'', c_farm_id = ''abc'',
      c_command = ''fan_on'', c_params = None, c_issued_by = None, c_issued_at = 0,
      c_status = ''sent''\<rparr>"

lemmas example_defs =
  example_env_def refusing_env_def raising_env_def example_device_def example_rule_def
  battery_rule_def empty_body_def telemetry_body_def warm_reading_def example_state_def
  ack_c0_def sent_state_def example_command_def

lemmas service_defs =
  init_def on_connect_def on_disconnect_def connect_error_def backoff_delay_def
  subscribe_to_topics_def socketio_emit_def log_diag_def MQTT_ERR_SUCCESS_def
  send_command_def command_record_def add_command_def set_record_status_def command_topic_def
  execute_automation_action_def sensor_value_def condition_met_def float_0_01_def
  enabled_rules_def check_automation_rules_def recorded_at_def new_reading_def mark_online_def
  add_reading_def handle_telemetry_def ack_status_def update_device_status_def handle_ack_def
  handle_status_def on_message_def Let_def

section \<open>Lemmas\<close>

subsection \<open>Rows and loops\<close>

lemma update_first_length [simp]: "length (update_first P f xs) = length xs"
  by (induction xs) auto

lemma update_first_set: "set (update_first P f xs) \<subseteq> set xs \<union> f ` set xs"
  by (induction xs) auto

lemma update_first_nth:
  "i < length xs \<Longrightarrow> update_first P f xs ! i = xs ! i \<or> update_first P f xs ! i = f (xs ! i)"
proof (induction xs arbitrary: i)
  case Nil
  then show ?case by simp
next
  case (Cons x xs)
  then show ?case by (cases i) auto
qed

lemma find_update_first:
  "find P xs = Some x \<Longrightarrow> P (f x) \<Longrightarrow> find P (update_first P f xs) = Some (f x)"
  by (induction xs) (auto split: if_splits)

lemma update_first_idem:
  "(\<And>x. P x \<Longrightarrow> P (f x)) \<Longrightarrow> (\<And>x. f (f x) = f x) \<Longrightarrow>
   update_first P f (update_first P f xs) = update_first P f xs"
  by (induction xs) auto

lemma update_first_no_match: "find P xs = None \<Longrightarrow> update_first P f xs = xs"
  by (induction xs) (auto split: if_splits)

lemma rules_loop_invariant:
  assumes "\<And>r s. Q s \<Longrightarrow> Q (exec r sd s)" and "\<And>s. Q s \<Longrightarrow> Q (err s)" and "Q st"
  shows "Q (rules_loop e exec err rs sd st)"
  using assms(3)
proof (induction rs arbitrary: st)
  case Nil
  then show ?case by simp
next
  case (Cons r rs)
  then show ?case by (auto simp: assms(1) assms(2) split: option.splits)
qed

lemma rules_loop_skip:
  "sensor_value r sd = None \<Longrightarrow>
   rules_loop e exec err (r # rs) sd st = rules_loop e exec err rs sd st"
  by simp

lemma rules_loop_filter:
  "rules_loop e exec err rs sd st =
     (if \<exists>r\<in>set rs. rule_raises e r sd then err else (\<lambda>s. s))
       (foldl (\<lambda>s r. exec r sd s) st
          (filter (\<lambda>r. rule_fires e r sd) (takeWhile (\<lambda>r. \<not> rule_raises e r sd) rs)))"
proof (induction rs arbitrary: st)
  case Nil
  then show ?case by simp
next
  case (Cons r rs)
  show ?case
  proof (cases "sensor_value r sd")
    case None
    then show ?thesis by (simp add: Cons rule_fires_def rule_raises_def)
  next
    case (Some v)
    show ?thesis
    proof (cases "condition_met e r v")
      case None
      then show ?thesis using Some by (simp add: rule_fires_def rule_raises_def)
    next
      case (Some c)
      then show ?thesis
        using \<open>sensor_value r sd = Some v\<close> by (simp add: Cons rule_fires_def rule_raises_def)
    qed
  qed
qed

lemma foldl_snoc: "foldl (\<lambda>s r. s @ [r]) acc xs = acc @ xs"
  by (induction xs arbitrary: acc) auto

lemma action_calls_filter:
  "action_calls e rs sd =
     filter (\<lambda>r. rule_fires e r sd) (takeWhile (\<lambda>r. \<not> rule_raises e r sd) rs)"
  by (simp add: action_calls_def rules_loop_filter foldl_snoc)







subsection \<open>The command table\<close>

lemma commands_socketio_emit [simp]: "commands (socketio_emit x st) = commands st"
  by (simp add: socketio_emit_def)

lemma commands_log_diag [simp]: "commands (log_diag x st) = commands st"
  by (simp add: log_diag_def)

lemma commands_handle_ack:
  "commands (handle_ack body st) =
     (case p_command_id body of
        None \<Rightarrow> commands st
      | Some cid \<Rightarrow> update_first (\<lambda>c. c_command_id c = cid)
                      (\<lambda>c. c\<lparr>c_status := ack_status body\<rparr>) (commands st))"
  by (auto simp: handle_ack_def update_first_no_match split: option.splits)

lemma commands_handle_status:
  "commands (handle_status now f r d body st) = commands (handle_ack body st)"
  by (simp add: handle_status_def commands_handle_ack update_device_status_def
      split: option.splits)

lemma send_command_unknown_device:
  "find (\<lambda>d. d_device_id d = dev) (devices st) = None \<Longrightarrow>
   send_command e now dev cmd ps who st = (False, log_diag (DeviceNotFound dev) st)"
  by (simp add: send_command_def)

lemma send_command_no_command:
  "find (\<lambda>d. d_device_id d = dev) (devices st) = Some device \<Longrightarrow>
   send_command e now dev None ps who st = (False, log_diag SendCommandDatabaseError st)"
  by (simp add: send_command_def)

text \<open>The status in which a dispatch leaves the row it has added.\<close>

lemma commands_send_command:
  "find (\<lambda>d. d_device_id d = dev) (devices st) = Some device \<Longrightarrow>
   commands (snd (send_command e now dev (Some cmd) ps who st)) =
     commands st @ [(command_record e now device dev cmd ps who st)
        \<lparr>c_status :=
           (if connected st then
              (case publish e (command_topic device dev)
                      \<lparr>cp_command_id = uuid4 e (length (commands st)), cp_command = cmd,
                       cp_params = (case ps of None \<Rightarrow> [] | Some p \<Rightarrow> p),
                       cp_timestamp = now\<rparr> of
                 None \<Rightarrow> ''pending''
               | Some rc \<Rightarrow> if rc = MQTT_ERR_SUCCESS then ''sent'' else ''failed'')
            else ''failed'')\<rparr>]"
  by (simp add: send_command_def Let_def add_command_def set_record_status_def
      command_record_def split: option.splits)

lemma fst_send_command:
  "find (\<lambda>d. d_device_id d = dev) (devices st) = Some device \<Longrightarrow>
   fst (send_command e now dev (Some cmd) ps who st) =
     (connected st \<and>
      publish e (command_topic device dev)
        \<lparr>cp_command_id = uuid4 e (length (commands st)), cp_command = cmd,
         cp_params = (case ps of None \<Rightarrow> [] | Some p \<Rightarrow> p), cp_timestamp = now\<rparr>
        = Some MQTT_ERR_SUCCESS)"
  by (simp add: send_command_def Let_def add_command_def command_record_def
      split: option.splits)

lemma send_command_appends:
  "\<exists>new. commands (snd (send_command e now dev cmd ps who st)) = commands st @ new
     \<and> length new \<le> 1"
proof (cases "find (\<lambda>d. d_device_id d = dev) (devices st)")
  case None
  then show ?thesis by (simp add: send_command_unknown_device)
next
  case (Some device)
  show ?thesis
  proof (cases cmd)
    case None
    then show ?thesis by (simp add: send_command_no_command [OF Some])
  next
    case (Some c)
    then show ?thesis
      by (simp add: commands_send_command [OF \<open>find _ _ = Some device\<close>])
  qed
qed

lemma send_command_new_rows:
  assumes "\<And>topic body. publish e topic body \<noteq> None"
  shows "\<exists>new. commands (snd (send_command e now dev cmd ps who st)) = commands st @ new
     \<and> length new \<le> 1
     \<and> (\<forall>c\<in>set new. c_status c = ''sent'' \<or> c_status c = ''failed'')"
proof (cases "find (\<lambda>d. d_device_id d = dev) (devices st)")
  case None
  then show ?thesis by (simp add: send_command_unknown_device)
next
  case (Some device)
  show ?thesis
  proof (cases cmd)
    case None
    then show ?thesis by (simp add: send_command_no_command [OF Some])
  next
    case (Some c)
    obtain rc where "publish e (command_topic device dev)
        \<lparr>cp_command_id = uuid4 e (length (commands st)), cp_command = c,
         cp_params = (case ps of None \<Rightarrow> [] | Some p \<Rightarrow> p), cp_timestamp = now\<rparr> = Some rc"
      using assms by fastforce
    then show ?thesis
      using Some by (simp add: commands_send_command [OF \<open>find _ _ = Some device\<close>])
  qed
qed

text \<open>
  When the client raises on publish, the call reports failure and the row it has
  committed stays pending.
\<close>

lemma send_command_publish_raises:
  "send_command raising_env 0 ''xyz'' (Some ''fan_on'') None None example_state
     = (False, log_diag SendCommandError
          (add_command (example_command\<lparr>c_status := ''pending''\<rparr>) example_state))"
  by (simp add: example_defs service_defs)

lemma commands_execute:
  "\<exists>new. commands (execute_automation_action e now r sd st) = commands st @ new"
proof (cases "r_action_command r")
  case None
  then show ?thesis by (simp add: execute_automation_action_def)
next
  case (Some a)
  obtain ok st1 where s:
    "send_command e now (r_action_device r) (a_command a) (Some (a_params a)) None st = (ok, st1)"
    by (cases "send_command e now (r_action_device r) (a_command a) (Some (a_params a)) None st")
  from send_command_appends [of e now "r_action_device r" "a_command a" "Some (a_params a)" None st] s
  obtain new where "commands st1 = commands st @ new"
    by auto
  then show ?thesis
    using Some s by (simp add: execute_automation_action_def)
qed

lemma commands_check_rules:
  "\<exists>new. commands (check_automation_rules e now room sd st) = commands st @ new"
  unfolding check_automation_rules_def
proof (rule rules_loop_invariant [where Q = "\<lambda>s. \<exists>new. commands s = commands st @ new"])
  fix r and s :: state
  assume "\<exists>new. commands s = commands st @ new"
  then obtain new where n: "commands s = commands st @ new" by auto
  from commands_execute [of e now r sd s]
  obtain new' where n': "commands (execute_automation_action e now r sd s) = commands s @ new'"
    by auto
  show "\<exists>new. commands (execute_automation_action e now r sd s) = commands st @ new"
    by (rule exI [of _ "new @ new'"]) (simp add: n n')
next
  fix s :: state
  assume "\<exists>new. commands s = commands st @ new"
  then show "\<exists>new. commands (log_diag AutomationRulesError s) = commands st @ new"
    by simp
next
  show "\<exists>new. commands st = commands st @ new"
    by simp
qed

lemma commands_handle_telemetry:
  "\<exists>new. commands (handle_telemetry e now f r d body st) = commands st @ new"
proof (cases "find (\<lambda>x. d_device_id x = d) (devices st)")
  case None
  then show ?thesis by (simp add: handle_telemetry_def)
next
  case (Some device)
  show ?thesis
  proof (cases "recorded_at e now body")
    case None
    then show ?thesis using Some by (simp add: handle_telemetry_def)
  next
    case (Some t)
    have "commands (socketio_emit x (add_reading sd (mark_online now d st))) = commands st" for x sd
      by (simp add: add_reading_def mark_online_def)
    then show ?thesis
      using \<open>find _ _ = Some device\<close> Some
        commands_check_rules [of e now r "new_reading f r d body t"
          "socketio_emit (TelemetryData f r d (new_reading f r d body t))
             (add_reading (new_reading f r d body t) (mark_online now d st))"]
      by (simp add: handle_telemetry_def Let_def)
  qed
qed

lemma commands_connect_error [simp]: "commands (snd (connect_error st)) = commands st"
  by (simp add: connect_error_def Let_def log_diag_def)

lemma commands_on_connect [simp]: "commands (on_connect rc st) = commands st"
  by (simp add: on_connect_def subscribe_to_topics_def)

lemma commands_on_disconnect [simp]: "commands (on_disconnect rc st) = commands st"
  by (simp add: on_disconnect_def)

subsection \<open>Statuses along a run\<close>

lemma settled_row_append:
  "settled_row i st \<Longrightarrow> commands st' = commands st @ new \<Longrightarrow> settled_row i st'"
  by (auto simp: settled_row_def nth_append)

lemma settled_row_handle_status:
  assumes "settled_row i st" and "ack_status body = ''acked'' \<or> ack_status body = ''failed''"
  shows "settled_row i (handle_status now f r d body st)"
proof (cases "p_command_id body")
  case None
  then show ?thesis using assms(1)
    by (simp add: settled_row_def commands_handle_status commands_handle_ack)
next
  case (Some cid)
  let ?P = "\<lambda>c. c_command_id c = cid" and ?f = "\<lambda>c. c\<lparr>c_status := ack_status body\<rparr>"
  have c: "commands (handle_status now f r d body st) = update_first ?P ?f (commands st)"
    by (simp add: commands_handle_status commands_handle_ack Some)
  have i: "i < length (commands st)" using assms(1) by (simp add: settled_row_def)
  from update_first_nth [OF i, of ?P ?f]
  have "update_first ?P ?f (commands st) ! i = commands st ! i
      \<or> update_first ?P ?f (commands st) ! i = ?f (commands st ! i)" .
  then show ?thesis
    using assms i unfolding settled_row_def c by auto
qed

lemma settled_row_on_message:
  assumes "settled_row i st" and "declares_outcome (Message m)"
  shows "settled_row i (on_message e now m st)"
proof (cases "m_payload m")
  case None
  then show ?thesis using assms(1) by (simp add: on_message_def settled_row_def)
next
  case (Some body)
  then have ack: "ack_status body = ''acked'' \<or> ack_status body = ''failed''"
    using assms(2) by (simp add: declares_outcome_def)
  have t: "settled_row i (handle_telemetry e now f r d body st)" for f r d
    using commands_handle_telemetry [of e now f r d body st] assms(1)
    by (auto intro: settled_row_append)
  have s: "settled_row i (handle_status now f r d body st)" for f r d
    by (rule settled_row_handle_status [OF assms(1) ack])
  have l: "settled_row i (log_diag x st)" for x
    using assms(1) by (simp add: settled_row_def)
  show ?thesis
    by (simp add: on_message_def Some Let_def t s l)
qed

lemma settled_row_step:
  assumes "settled_row i st" and "declares_outcome (snd ev)"
  shows "settled_row i (step e ev st)"
proof (cases ev)
  case (Pair now x)
  show ?thesis
  proof (cases x)
    case (Message m)
    then show ?thesis using Pair assms by (simp add: settled_row_on_message)
  next
    case (SendCommand dev cmd ps who)
    then show ?thesis
      using Pair assms(1) send_command_appends [of e now dev cmd ps who st]
      by (auto intro: settled_row_append)
  qed (insert Pair assms(1), simp_all add: settled_row_def)
qed

lemma settled_row_run:
  "settled_row i st \<Longrightarrow> \<forall>ev\<in>set evs. declares_outcome (snd ev) \<Longrightarrow>
   settled_row i (run e evs st)"
  by (induction evs arbitrary: st) (simp_all add: settled_row_step)

lemma quiet_step:
  assumes "\<not> is_message (snd ev)"
  shows "\<exists>new. commands (step e ev st) = commands st @ new"
proof (cases ev)
  case (Pair now x)
  show ?thesis
  proof (cases x)
    case (Message m)
    then show ?thesis using Pair assms by (simp add: is_message_def)
  next
    case (SendCommand dev cmd ps who)
    then show ?thesis
      using Pair send_command_appends [of e now dev cmd ps who st] by auto
  qed (insert Pair, simp_all)
qed

lemma quiet_run:
  "\<forall>ev\<in>set evs. \<not> is_message (snd ev) \<Longrightarrow>
   \<exists>new. commands (run e evs st) = commands st @ new"
proof (induction evs arbitrary: st)
  case Nil
  then show ?case by simp
next
  case (Cons ev evs)
  from Cons.prems obtain new where a: "commands (step e ev st) = commands st @ new"
    using quiet_step [of ev e st] by auto
  from Cons obtain new' where
    "commands (run e evs (step e ev st)) = commands (step e ev st) @ new'"
    by fastforce
  with a show ?case by simp
qed

subsection \<open>The reading table\<close>

lemma readings_send_command [simp]:
  "readings (snd (send_command e now dev cmd ps who st)) = readings st"
  by (simp add: send_command_def Let_def add_command_def set_record_status_def log_diag_def
      split: option.splits)

lemma readings_execute [simp]:
  "readings (execute_automation_action e now r sd st) = readings st"
proof (cases "r_action_command r")
  case None
  then show ?thesis by (simp add: execute_automation_action_def log_diag_def)
next
  case (Some a)
  obtain ok st1 where s:
    "send_command e now (r_action_device r) (a_command a) (Some (a_params a)) None st = (ok, st1)"
    by (cases "send_command e now (r_action_device r) (a_command a) (Some (a_params a)) None st")
  have "readings st1 = readings st"
    using readings_send_command [of e now "r_action_device r" "a_command a"
        "Some (a_params a)" None st] s
    by simp
  then show ?thesis
    using Some s by (simp add: execute_automation_action_def)
qed

lemma readings_check_rules [simp]:
  "readings (check_automation_rules e now room sd st) = readings st"
  unfolding check_automation_rules_def
  by (rule rules_loop_invariant [where Q = "\<lambda>s. readings s = readings st"])
     (simp_all add: log_diag_def)

subsection \<open>The settings of the service\<close>

lemma settings_log_diag [simp]: "settings (log_diag d st) = settings st"
  by (simp add: settings_def log_diag_def)

lemma settings_socketio_emit [simp]: "settings (socketio_emit x st) = settings st"
  by (simp add: settings_def socketio_emit_def)

lemma settings_send_command [simp]:
  "settings (snd (send_command e now dev cmd ps who st)) = settings st"
  by (simp add: send_command_def Let_def add_command_def set_record_status_def settings_def
      log_diag_def split: option.splits)

lemma settings_execute [simp]:
  "settings (execute_automation_action e now r sd st) = settings st"
proof (cases "r_action_command r")
  case None
  then show ?thesis by (simp add: execute_automation_action_def)
next
  case (Some a)
  obtain ok st1 where s:
    "send_command e now (r_action_device r) (a_command a) (Some (a_params a)) None st = (ok, st1)"
    by (cases "send_command e now (r_action_device r) (a_command a) (Some (a_params a)) None st")
  have "settings st1 = settings st"
    using settings_send_command [of e now "r_action_device r" "a_command a"
        "Some (a_params a)" None st] s
    by simp
  then show ?thesis
    using Some s by (simp add: execute_automation_action_def settings_def)
qed

lemma settings_check_rules [simp]:
  "settings (check_automation_rules e now room sd st) = settings st"
  unfolding check_automation_rules_def
  by (rule rules_loop_invariant [where Q = "\<lambda>s. settings s = settings st"]) simp_all

lemma settings_handle_telemetry [simp]:
  "settings (handle_telemetry e now f r d body st) = settings st"
  by (simp add: handle_telemetry_def Let_def split: option.splits)
     (simp add: settings_def add_reading_def mark_online_def)

lemma settings_handle_status [simp]:
  "settings (handle_status now f r d body st) = settings st"
  by (simp add: handle_status_def handle_ack_def update_device_status_def split: option.splits)
     (simp_all add: settings_def)

lemma settings_on_message [simp]: "settings (on_message e now m st) = settings st"
  by (simp add: on_message_def Let_def split: option.splits)

lemma settings_connect_error [simp]: "settings (snd (connect_error st)) = settings st"
  by (simp add: connect_error_def Let_def settings_def log_diag_def)

lemma settings_on_connect [simp]: "settings (on_connect rc st) = settings st"
  by (simp add: on_connect_def subscribe_to_topics_def) (simp add: settings_def log_diag_def)

lemma settings_on_disconnect [simp]: "settings (on_disconnect rc st) = settings st"
  by (simp add: on_disconnect_def) (simp add: settings_def)

lemma settings_step [simp]: "settings (step e ev st) = settings st"
proof (cases ev)
  case (Pair now x)
  then show ?thesis by (cases x) simp_all
qed

lemma settings_run [simp]: "settings (run e evs st) = settings st"
  by (induction evs arbitrary: st) simp_all

lemma connect_errors_delays:
  "connect_errors n st =
     map (\<lambda>k. min (reconnect_delay st * 2 ^ (reconnect_attempts st + k)) (max_reconnect_delay st))
       [0..<n]"
proof (induction n arbitrary: st)
  case 0
  then show ?case by simp
next
  case (Suc n)
  have "[0..<Suc n] = 0 # map Suc [0..<n]"
    by (simp add: upt_conv_Cons map_Suc_upt del: upt_Suc)
  then show ?case
    by (simp add: Suc connect_error_def Let_def backoff_delay_def log_diag_def comp_def
        del: upt_Suc)
qed

section \<open>The claims\<close>

subsection \<open>C1: the lifecycle of a command\<close>

text \<open>
  C1, as stated, fails. A command is dispatched and becomes sent; the acknowledgment of
  the device makes it acked; a later status message that names the same command and
  carries \<^verbatim>\<open>ack_status = pending\<close> takes it out of the terminal state acked and back to
  pending. \<^verbatim>\<open>_handle_status\<close> assigns the status without looking at the present one.
\<close>

theorem command_lifecycle_counterexample:
  "map c_status (commands (run example_env
      [(1, SendCommand ''xyz'' (Some ''fan_on'') None None)] example_state)) = [''sent'']
   \<and> map c_status (commands (run example_env
      [(1, SendCommand ''xyz'' (Some ''fan_on'') None None), (2, Message ack_c0)] example_state))
       = [''acked'']
   \<and> map c_status (commands (run example_env
      [(1, SendCommand ''xyz'' (Some ''fan_on'') None None), (2, Message ack_c0),
       (3, Message \<lparr>m_topic = ''farm/abc/room/r1/device/xyz/status'',
                    m_payload = Some (empty_body\<lparr>p_command_id := Some ''c0'',
                                                  p_ack_status := Some ''pending''\<rparr>)\<rparr>)]
      example_state)) = [''pending'']"
  by (simp add: example_defs service_defs)

text \<open>
  C1, amended. Every single command that is sent, acked or failed stays within these
  three statuses and never returns to pending, whatever the other rows of the table are,
  through every run of dispatches, connection events and inbound messages whose bodies
  declare acked or failed. A dispatch leaves the rows already in the command table as
  they are and adds at most one row; when the publish of the client returns a code, that
  row has left pending for sent or failed when the dispatch returns. A status message
  that names a command sets its status to the declared one, whatever the status was, so
  that acked and failed themselves can still be overwritten.
\<close>

theorem command_lifecycle:
  "(settled_row i st \<longrightarrow> (\<forall>ev\<in>set evs. declares_outcome (snd ev)) \<longrightarrow>
       settled_row i (run e evs st))
   \<and> (\<exists>new. commands (snd (send_command e now device_id cmd ps issued_by st)) = commands st @ new
         \<and> length new \<le> 1)
   \<and> ((\<forall>topic pb. publish e topic pb \<noteq> None) \<longrightarrow>
        (\<exists>new. commands (snd (send_command e now device_id cmd ps issued_by st)) = commands st @ new
           \<and> length new \<le> 1
           \<and> (\<forall>c\<in>set new. c_status c = ''sent'' \<or> c_status c = ''failed'')))
   \<and> (\<forall>cid c. p_command_id body = Some cid \<longrightarrow>
         find (\<lambda>c. c_command_id c = cid) (commands st) = Some c \<longrightarrow>
         find (\<lambda>c. c_command_id c = cid)
            (commands (handle_status now farm_id room_id device_id' body st))
           = Some (c\<lparr>c_status := ack_status body\<rparr>))"
proof (intro conjI impI allI)
  assume "settled_row i st" "\<forall>ev\<in>set evs. declares_outcome (snd ev)"
  then show "settled_row i (run e evs st)" by (rule settled_row_run)
next
  show "\<exists>new. commands (snd (send_command e now device_id cmd ps issued_by st)) = commands st @ new
         \<and> length new \<le> 1"
    by (rule send_command_appends)
next
  assume "\<forall>topic pb. publish e topic pb \<noteq> None"
  then show "\<exists>new. commands (snd (send_command e now device_id cmd ps issued_by st))
           = commands st @ new
         \<and> length new \<le> 1
         \<and> (\<forall>c\<in>set new. c_status c = ''sent'' \<or> c_status c = ''failed'')"
    by (intro send_command_new_rows) simp
next
  fix cid c
  assume a: "p_command_id body = Some cid"
    "find (\<lambda>c. c_command_id c = cid) (commands st) = Some c"
  then have "c_command_id c = cid" by (auto dest: find_Some_iff [THEN iffD1])
  then show "find (\<lambda>c. c_command_id c = cid)
            (commands (handle_status now farm_id room_id device_id' body st))
           = Some (c\<lparr>c_status := ack_status body\<rparr>)"
    using a by (simp add: commands_handle_status commands_handle_ack find_update_first)
qed

text \<open>
  C1, amended, at a table of two rows: command \<^verbatim>\<open>c0\<close> is sent, and a second dispatch on
  which the client raised has left command \<^verbatim>\<open>c1\<close> pending. The device acknowledges \<^verbatim>\<open>c0\<close>.
\<close>

theorem command_lifecycle_witness:
  "map c_status (commands
      (snd (send_command raising_env 1 ''xyz'' (Some ''fan_on'') None None sent_state)))
     = [''sent'', ''pending'']
   \<and> settled_row 0
        (snd (send_command raising_env 1 ''xyz'' (Some ''fan_on'') None None sent_state))
   \<and> declares_outcome (Message ack_c0)
   \<and> declares_outcome Idle
   \<and> settled_row 0 (run example_env [(2, Message ack_c0), (3, Idle)]
        (snd (send_command raising_env 1 ''xyz'' (Some ''fan_on'') None None sent_state)))
   \<and> map c_status (commands (run example_env [(2, Message ack_c0), (3, Idle)]
        (snd (send_command raising_env 1 ''xyz'' (Some ''fan_on'') None None sent_state))))
     = [''acked'', ''pending'']
   \<and> map c_status (commands
        (snd (send_command example_env 1 ''xyz'' (Some ''fan_on'') None None sent_state)))
     = [''sent'', ''sent'']
   \<and> p_command_id (the (m_payload ack_c0)) = Some ''c0''
   \<and> find (\<lambda>c. c_command_id c = ''c0'') (commands sent_state) = Some example_command
   \<and> find (\<lambda>c. c_command_id c = ''c0'')
        (commands (handle_status 2 ''abc'' ''r1'' ''xyz'' (the (m_payload ack_c0)) sent_state))
       = Some (example_command\<lparr>c_status := ''acked''\<rparr>)"
  using command_lifecycle [where i = 0
      and st = "snd (send_command raising_env 1 ''xyz'' (Some ''fan_on'') None None sent_state)"
      and evs = "[(2, Message ack_c0), (3, Idle)]" and e = example_env]
    command_lifecycle [where st = sent_state and e = example_env and now = 1
      and device_id = "''xyz''" and cmd = "Some ''fan_on''" and ps = None and issued_by = None
      and body = "the (m_payload ack_c0)" and farm_id = "''abc''" and room_id = "''r1''"
      and device_id' = "''xyz''"]
  by (simp add: example_defs service_defs settled_row_def declares_outcome_def)

subsection \<open>C2: what a status message does to the command it names\<close>

text \<open>
  C2, as stated, fails. The broker refuses the publish, so the command is failed; the
  plain acknowledgment for that command then makes it acked, although it was not sent.
\<close>

theorem ack_guard_counterexample:
  "map c_status (commands (snd (send_command refusing_env 1 ''xyz'' (Some ''fan_on'') None None
      example_state))) = [''failed'']
   \<and> map c_status (commands (on_message refusing_env 2 ack_c0
        (snd (send_command refusing_env 1 ''xyz'' (Some ''fan_on'') None None example_state))))
     = [''acked'']"
  by (simp add: example_defs service_defs)

text \<open>
  C2, amended. For every inbound status message that carries a \<^verbatim>\<open>command_id\<close> matching an
  existing command, the handler sets the status of that command (the first row with this
  id, and no other row) to the \<^verbatim>\<open>ack_status\<close> of the body, which is acked when the body has
  no such key and failed when the body says failed, whatever the present status of the
  command is. A second identical message leaves the command table as the first left it.
\<close>

theorem status_message_sets_status:
  assumes "p_command_id body = Some cid"
    and "find (\<lambda>c. c_command_id c = cid) (commands st) = Some cmd"
  shows "commands (handle_status now farm_id room_id device_id body st) =
           update_first (\<lambda>c. c_command_id c = cid) (\<lambda>c. c\<lparr>c_status := ack_status body\<rparr>)
             (commands st)
       \<and> find (\<lambda>c. c_command_id c = cid)
            (commands (handle_status now farm_id room_id device_id body st))
           = Some (cmd\<lparr>c_status := ack_status body\<rparr>)
       \<and> (p_ack_status body = None \<longrightarrow> ack_status body = ''acked'')
       \<and> (p_ack_status body = Some ''failed'' \<longrightarrow> ack_status body = ''failed'')
       \<and> commands (handle_status now' farm_id room_id device_id body
                      (handle_status now farm_id room_id device_id body st))
           = commands (handle_status now farm_id room_id device_id body st)"
proof -
  let ?P = "\<lambda>c. c_command_id c = cid" and ?f = "\<lambda>c. c\<lparr>c_status := ack_status body\<rparr>"
  have a: "commands (handle_status n f r d body s) = update_first ?P ?f (commands s)" for n f r d s
    by (simp add: commands_handle_status commands_handle_ack assms(1))
  have "?P cmd" using assms(2) by (auto dest: find_Some_iff [THEN iffD1])
  then have b: "find ?P (update_first ?P ?f (commands st)) = Some (?f cmd)"
    using assms(2) by (intro find_update_first) simp_all
  have c: "update_first ?P ?f (update_first ?P ?f (commands st)) = update_first ?P ?f (commands st)"
    by (rule update_first_idem) simp_all
  show ?thesis
    by (simp add: a b c) (simp add: ack_status_def)
qed

text \<open>C2, amended, for the acknowledgment of the sent command \<^verbatim>\<open>c0\<close>.\<close>

theorem status_message_sets_status_witness:
  "p_command_id (the (m_payload ack_c0)) = Some ''c0''
   \<and> find (\<lambda>c. c_command_id c = ''c0'') (commands sent_state) = Some example_command
   \<and> commands (handle_status 9 ''abc'' ''r1'' ''xyz'' (the (m_payload ack_c0)) sent_state)
       = [example_command\<lparr>c_status := ''acked''\<rparr>]"
  using status_message_sets_status [where body = "the (m_payload ack_c0)" and cid = "''c0''"
      and st = sent_state and cmd = example_command and now = 9 and farm_id = "''abc''"
      and room_id = "''r1''" and device_id = "''xyz''" and now' = 10]
  by (simp add: example_defs service_defs)

subsection \<open>C3: commands that are never acknowledged\<close>

text \<open>
  C3, as stated, fails. The command is issued and sent at instant 0. Two days pass in
  which the connection loop sleeps, fails once and reconnects, and no message arrives:
  the command is still sent. The service has no operation that looks at the age of a
  command.
\<close>

theorem ack_timeout_counterexample:
  "map (\<lambda>c. (c_issued_at c, c_status c))
     (commands (run example_env
        [(0, SendCommand ''xyz'' (Some ''fan_on'') None None), (61, Idle), (3600, Idle),
         (86400, ConnectError), (86405, OnConnect 0), (172800, Idle)] example_state))
     = [(0, ''sent'')]"
  by (simp add: example_defs service_defs)

text \<open>
  C3, amended. The service has no time-driven sweep: as long as no inbound message
  arrives, every row of the command table keeps its status, so a command that is sent
  stays sent however much time passes, through connection failures, reconnects, idle
  waits and dispatches of further commands.
\<close>

theorem sent_without_messages:
  assumes "\<forall>ev\<in>set evs. \<not> is_message (snd ev)"
  shows "take (length (commands st)) (commands (run e evs st)) = commands st"
proof -
  from quiet_run [OF assms, of e st] obtain new where
    "commands (run e evs st) = commands st @ new"
    by auto
  then show ?thesis by simp
qed

text \<open>C3, amended, for the sent command \<^verbatim>\<open>c0\<close> and an hour without messages.\<close>

theorem sent_without_messages_witness:
  "\<not> is_message Idle \<and> \<not> is_message ConnectError \<and> \<not> is_message (OnConnect 0)
   \<and> commands sent_state = [example_command]
   \<and> take (length (commands sent_state))
        (commands (run example_env [(61, Idle), (3600, ConnectError), (3605, OnConnect 0)]
           sent_state))
       = [example_command]"
  using sent_without_messages [where evs = "[(61, Idle), (3600, ConnectError), (3605, OnConnect 0)]"
      and e = example_env and st = sent_state]
  by (simp add: example_defs service_defs is_message_def)

subsection \<open>C4: malformed topics\<close>

text \<open>
  C4, as stated, fails. The topic \<^verbatim>\<open>farm/abc/room//device/xyz/telemetry\<close> has an empty room
  segment. \<^verbatim>\<open>_on_message\<close> hands it to the telemetry handler with the empty room id, a
  reading with that room id is stored for the known device \<^verbatim>\<open>xyz\<close>, and nothing is logged.
\<close>

theorem empty_segment_counterexample:
  "on_message example_env 5
      \<lparr>m_topic = ''farm/abc/room//device/xyz/telemetry'',
       m_payload = Some (empty_body\<lparr>p_temperature_c := Some 21\<rparr>)\<rparr> example_state
     = handle_telemetry example_env 5 ''abc'' [] ''xyz''
         (empty_body\<lparr>p_temperature_c := Some 21\<rparr>) example_state
   \<and> map s_room_id (readings (on_message example_env 5
        \<lparr>m_topic = ''farm/abc/room//device/xyz/telemetry'',
         m_payload = Some (empty_body\<lparr>p_temperature_c := Some 21\<rparr>)\<rparr> example_state)) = [[]]
   \<and> logged (on_message example_env 5
        \<lparr>m_topic = ''farm/abc/room//device/xyz/telemetry'',
         m_payload = Some (empty_body\<lparr>p_temperature_c := Some 21\<rparr>)\<rparr> example_state) = []"
  by (simp add: example_defs service_defs)

text \<open>
  C4, amended. A message whose body does not decode is logged and dropped. A message
  whose topic splits at \<^verbatim>\<open>/\<close> into fewer than six segments is logged as an invalid topic
  format and dropped: no handler runs, no reading is stored, only the log grows, and
  \<^verbatim>\<open>_on_message\<close> returns. A topic of six or more segments is not checked further:
  segments 1, 3 and 5 are the farm, room and device id even when they are empty, the
  segment at index 6 selects the telemetry or the status handler, and later segments are
  ignored; with exactly six segments, or another segment at index 6, the message is logged
  as of unknown type and dropped.
\<close>

theorem topic_routing:
  "(m_payload m = None \<longrightarrow> on_message e now m st = log_diag JsonDecodeError st)
   \<and> (\<forall>body. m_payload m = Some body \<longrightarrow>
        (let parts = py_split (CHR ''/'') (m_topic m);
             kind = (if length parts > 6 then parts ! 6 else ''unknown'')
         in (length parts < 6 \<longrightarrow>
               on_message e now m st = log_diag (InvalidTopicFormat (m_topic m)) st)
          \<and> (length parts \<ge> 6 \<longrightarrow> kind = ''telemetry'' \<longrightarrow>
               on_message e now m st
                 = handle_telemetry e now (parts ! 1) (parts ! 3) (parts ! 5) body st)
          \<and> (length parts \<ge> 6 \<longrightarrow> kind = ''status'' \<longrightarrow>
               on_message e now m st
                 = handle_status now (parts ! 1) (parts ! 3) (parts ! 5) body st)
          \<and> (length parts \<ge> 6 \<longrightarrow> kind \<noteq> ''telemetry'' \<longrightarrow> kind \<noteq> ''status'' \<longrightarrow>
               on_message e now m st = log_diag (UnknownMessageType kind) st)))"
  by (simp add: on_message_def Let_def)

text \<open>
  C4, amended, on five messages: a body that does not decode, a topic of three segments,
  a telemetry topic, a status topic, and a topic of six segments.
\<close>

theorem topic_routing_witness:
  "on_message example_env 5
      \<lparr>m_topic = ''farm/abc/room/r1/device/xyz/telemetry'', m_payload = None\<rparr> example_state
     = log_diag JsonDecodeError example_state
   \<and> length (py_split (CHR ''/'') ''farm/abc/telemetry'') < 6
   \<and> on_message example_env 5
        \<lparr>m_topic = ''farm/abc/telemetry'', m_payload = Some telemetry_body\<rparr> example_state
       = log_diag (InvalidTopicFormat ''farm/abc/telemetry'') example_state
   \<and> py_split (CHR ''/'') ''farm/abc/room/r1/device/xyz/telemetry''
       = [''farm'', ''abc'', ''room'', ''r1'', ''device'', ''xyz'', ''telemetry'']
   \<and> on_message example_env 5
        \<lparr>m_topic = ''farm/abc/room/r1/device/xyz/telemetry'', m_payload = Some telemetry_body\<rparr>
        example_state
       = handle_telemetry example_env 5 ''abc'' ''r1'' ''xyz'' telemetry_body example_state
   \<and> on_message example_env 5
        \<lparr>m_topic = ''farm/abc/room/r1/device/xyz/status'', m_payload = Some telemetry_body\<rparr>
        example_state
       = handle_status 5 ''abc'' ''r1'' ''xyz'' telemetry_body example_state
   \<and> on_message example_env 5
        \<lparr>m_topic = ''farm/abc/room/r1/device/xyz'', m_payload = Some telemetry_body\<rparr>
        example_state
       = log_diag (UnknownMessageType ''unknown'') example_state"
  using topic_routing [where m = "\<lparr>m_topic = ''farm/abc/room/r1/device/xyz/telemetry'',
        m_payload = None\<rparr>" and e = example_env and now = 5 and st = example_state]
    topic_routing [where m = "\<lparr>m_topic = ''farm/abc/telemetry'',
        m_payload = Some telemetry_body\<rparr>" and e = example_env and now = 5 and st = example_state]
    topic_routing [where m = "\<lparr>m_topic = ''farm/abc/room/r1/device/xyz/telemetry'',
        m_payload = Some telemetry_body\<rparr>" and e = example_env and now = 5 and st = example_state]
    topic_routing [where m = "\<lparr>m_topic = ''farm/abc/room/r1/device/xyz/status'',
        m_payload = Some telemetry_body\<rparr>" and e = example_env and now = 5 and st = example_state]
    topic_routing [where m = "\<lparr>m_topic = ''farm/abc/room/r1/device/xyz'',
        m_payload = Some telemetry_body\<rparr>" and e = example_env and now = 5 and st = example_state]
  by (simp add: Let_def)

subsection \<open>C5: reconnect delays\<close>

text \<open>
  C5. In a run of consecutive connection failures the n-th delay, counted from 0, is
  \<open>min (5 * 2 ^ n) 300\<close> seconds: from the start of the service, and again after every
  successful connect, whatever happened before it, because the connect resets the
  attempt counter to 0. From any state the service reaches, the delays continue from the
  attempts counted so far.
\<close>

theorem reconnect_backoff:
  "connect_errors n (init sio ds ss cs rs ns) = map (\<lambda>k. min (5 * 2 ^ k) 300) [0..<n]
   \<and> connect_errors n (run e evs (init sio ds ss cs rs ns)) =
       map (\<lambda>k. min (5 * 2 ^ (reconnect_attempts (run e evs (init sio ds ss cs rs ns)) + k)) 300)
         [0..<n]
   \<and> connect_errors n (on_connect 0 (run e evs (init sio ds ss cs rs ns))) =
       map (\<lambda>k. min (5 * 2 ^ k) 300) [0..<n]"
proof -
  let ?st = "run e evs (init sio ds ss cs rs ns)"
  have "settings ?st = settings (init sio ds ss cs rs ns)" by simp
  then have cfg: "reconnect_delay ?st = 5" "max_reconnect_delay ?st = 300"
    by (simp_all add: settings_def init_def)
  have "settings (on_connect 0 ?st) = settings ?st" by simp
  then have cfg': "reconnect_delay (on_connect 0 ?st) = 5"
    "max_reconnect_delay (on_connect 0 ?st) = 300"
    using cfg by (simp_all add: settings_def)
  have att: "reconnect_attempts (on_connect 0 ?st) = 0"
    by (simp add: on_connect_def socketio_emit_def subscribe_to_topics_def)
  show ?thesis
    by (simp add: connect_errors_delays cfg cfg' att) (simp add: init_def)
qed

text \<open>
  C5 on eight failures after the start, and on two failures after two failures and a
  successful connect.
\<close>

theorem reconnect_backoff_witness:
  "connect_errors 8 (init False [] [] [] [] []) = [5, 10, 20, 40, 80, 160, 300, 300]
   \<and> connect_errors 2
        (on_connect 0 (run example_env [(1, ConnectError), (6, ConnectError)]
           (init False [] [] [] [] []))) = [5, 10]"
  using reconnect_backoff [where n = 8 and sio = False and ds = "[]" and ss = "[]" and cs = "[]"
      and rs = "[]" and ns = "[]" and e = example_env and evs = "[]"]
    reconnect_backoff [where n = 2 and sio = False and ds = "[]" and ss = "[]" and cs = "[]"
      and rs = "[]" and ns = "[]" and e = example_env
      and evs = "[(1, ConnectError), (6, ConnectError)]"]
  by (simp add: upt_rec numeral_nat)

subsection \<open>C6: evaluation of a rule\<close>




subsection \<open>C7: sending a command\<close>

text \<open>
  C7, as stated, fails. The device \<^verbatim>\<open>xyz\<close> exists, the service is connected and the broker
  accepts every publish, but the call carries no command, as the action of an automation
  rule without the key \<^verbatim>\<open>command\<close> gives: the row cannot be stored, the call reports
  failure, and no Command record is created.
\<close>

theorem send_command_counterexample:
  "find (\<lambda>d. d_device_id d = ''xyz'') (devices example_state) = Some example_device
   \<and> connected example_state
   \<and> send_command example_env 0 ''xyz'' None (Some []) None example_state
       = (False, log_diag SendCommandDatabaseError example_state)
   \<and> commands (snd (send_command example_env 0 ''xyz'' None (Some []) None example_state)) = []
   \<and> commands (execute_automation_action example_env 0
        (example_rule\<lparr>r_action_command := Some \<lparr>a_command = None, a_params = []\<rparr>\<rparr>)
        warm_reading example_state) = []"
  by (simp add: example_defs service_defs)

text \<open>
  C7, amended. When no device has the given id, \<^verbatim>\<open>send_command\<close> reports failure, logs that
  the device was not found and leaves the command table as it is. When the device exists
  but the call carries no command, the store rejects the row, the call reports failure
  and the command table is as before. Otherwise the call adds exactly one row, created
  with status pending. It reports success exactly when the service is connected and the
  publish of the client returns the success code, and the row then is sent. When the
  service is not connected, or the publish returns another code, the row is failed and
  the call reports failure. Nothing but the connection and the publish decides the
  result.
\<close>

theorem send_command_outcome:
  "(find (\<lambda>d. d_device_id d = device_id) (devices st) = None \<longrightarrow>
      send_command e now device_id command ps issued_by st
        = (False, log_diag (DeviceNotFound device_id) st)
      \<and> commands (snd (send_command e now device_id command ps issued_by st)) = commands st)
   \<and> (\<forall>device. find (\<lambda>d. d_device_id d = device_id) (devices st) = Some device \<longrightarrow>
        command = None \<longrightarrow>
        send_command e now device_id command ps issued_by st
          = (False, log_diag SendCommandDatabaseError st)
        \<and> commands (snd (send_command e now device_id command ps issued_by st)) = commands st)
   \<and> (\<forall>device cmd. find (\<lambda>d. d_device_id d = device_id) (devices st) = Some device \<longrightarrow>
        command = Some cmd \<longrightarrow>
        (let rec = command_record e now device device_id cmd ps issued_by st;
             published = publish e (command_topic device device_id)
                  \<lparr>cp_command_id = c_command_id rec, cp_command = cmd,
                   cp_params = (case ps of None \<Rightarrow> [] | Some p \<Rightarrow> p),
                   cp_timestamp = now\<rparr>
         in c_status rec = ''pending''
            \<and> commands (add_command rec st) = commands st @ [rec]
            \<and> (\<exists>s. commands (snd (send_command e now device_id command ps issued_by st)) =
                  commands st @ [rec\<lparr>c_status := s\<rparr>])
            \<and> fst (send_command e now device_id command ps issued_by st)
                = (connected st \<and> published = Some MQTT_ERR_SUCCESS)
            \<and> (connected st \<longrightarrow> published = Some MQTT_ERR_SUCCESS \<longrightarrow>
                 commands (snd (send_command e now device_id command ps issued_by st)) =
                   commands st @ [rec\<lparr>c_status := ''sent''\<rparr>])
            \<and> (\<forall>rc. connected st \<longrightarrow> published = Some rc \<longrightarrow> rc \<noteq> MQTT_ERR_SUCCESS \<longrightarrow>
                 commands (snd (send_command e now device_id command ps issued_by st)) =
                   commands st @ [rec\<lparr>c_status := ''failed''\<rparr>])
            \<and> (\<not> connected st \<longrightarrow>
                 commands (snd (send_command e now device_id command ps issued_by st)) =
                   commands st @ [rec\<lparr>c_status := ''failed''\<rparr>])))"
proof (intro conjI impI allI)
  assume "find (\<lambda>d. d_device_id d = device_id) (devices st) = None"
  then show "send_command e now device_id command ps issued_by st
        = (False, log_diag (DeviceNotFound device_id) st)"
    by (rule send_command_unknown_device)
  then show "commands (snd (send_command e now device_id command ps issued_by st)) = commands st"
    by simp
next
  fix device
  assume "find (\<lambda>d. d_device_id d = device_id) (devices st) = Some device" "command = None"
  then show "send_command e now device_id command ps issued_by st
          = (False, log_diag SendCommandDatabaseError st)"
    by (simp add: send_command_no_command)
  then show "commands (snd (send_command e now device_id command ps issued_by st)) = commands st"
    by simp
next
  fix device cmd
  assume d: "find (\<lambda>d. d_device_id d = device_id) (devices st) = Some device"
    and c: "command = Some cmd"
  show "let rec = command_record e now device device_id cmd ps issued_by st;
             published = publish e (command_topic device device_id)
                  \<lparr>cp_command_id = c_command_id rec, cp_command = cmd,
                   cp_params = (case ps of None \<Rightarrow> [] | Some p \<Rightarrow> p),
                   cp_timestamp = now\<rparr>
         in c_status rec = ''pending''
            \<and> commands (add_command rec st) = commands st @ [rec]
            \<and> (\<exists>s. commands (snd (send_command e now device_id command ps issued_by st)) =
                  commands st @ [rec\<lparr>c_status := s\<rparr>])
            \<and> fst (send_command e now device_id command ps issued_by st)
                = (connected st \<and> published = Some MQTT_ERR_SUCCESS)
            \<and> (connected st \<longrightarrow> published = Some MQTT_ERR_SUCCESS \<longrightarrow>
                 commands (snd (send_command e now device_id command ps issued_by st)) =
                   commands st @ [rec\<lparr>c_status := ''sent''\<rparr>])
            \<and> (\<forall>rc. connected st \<longrightarrow> published = Some rc \<longrightarrow> rc \<noteq> MQTT_ERR_SUCCESS \<longrightarrow>
                 commands (snd (send_command e now device_id command ps issued_by st)) =
                   commands st @ [rec\<lparr>c_status := ''failed''\<rparr>])
            \<and> (\<not> connected st \<longrightarrow>
                 commands (snd (send_command e now device_id command ps issued_by st)) =
                   commands st @ [rec\<lparr>c_status := ''failed''\<rparr>])"
    using commands_send_command [OF d, of e now cmd ps issued_by]
      fst_send_command [OF d, of e now cmd ps issued_by]
    by (simp add: c Let_def add_command_def command_record_def)
qed

text \<open>
  C7, amended, on the known device \<^verbatim>\<open>xyz\<close> with an accepting and with a refusing broker
  and without a connection, on an unknown device, and on a call without a command.
\<close>

theorem send_command_outcome_witness:
  "find (\<lambda>d. d_device_id d = ''xyz'') (devices example_state) = Some example_device
   \<and> connected example_state
   \<and> fst (send_command example_env 0 ''xyz'' (Some ''fan_on'') None None example_state)
   \<and> commands (snd (send_command example_env 0 ''xyz'' (Some ''fan_on'') None None example_state))
       = [example_command]
   \<and> \<not> fst (send_command refusing_env 0 ''xyz'' (Some ''fan_on'') None None example_state)
   \<and> commands (snd (send_command refusing_env 0 ''xyz'' (Some ''fan_on'') None None example_state))
       = [example_command\<lparr>c_status := ''failed''\<rparr>]
   \<and> \<not> connected (on_disconnect 0 example_state)
   \<and> \<not> fst (send_command example_env 0 ''xyz'' (Some ''fan_on'') None None
          (on_disconnect 0 example_state))
   \<and> commands (snd (send_command example_env 0 ''xyz'' (Some ''fan_on'') None None
          (on_disconnect 0 example_state)))
       = [example_command\<lparr>c_status := ''failed''\<rparr>]
   \<and> find (\<lambda>d. d_device_id d = ''nope'') (devices example_state) = None
   \<and> send_command example_env 0 ''nope'' (Some ''fan_on'') None None example_state
       = (False, log_diag (DeviceNotFound ''nope'') example_state)
   \<and> send_command example_env 0 ''xyz'' None None None example_state
       = (False, log_diag SendCommandDatabaseError example_state)"
  using send_command_outcome [where device_id = "''xyz''" and st = example_state
      and e = example_env and now = 0 and command = "Some ''fan_on''" and ps = None
      and issued_by = None]
    send_command_outcome [where device_id = "''xyz''" and st = example_state
      and e = refusing_env and now = 0 and command = "Some ''fan_on''" and ps = None
      and issued_by = None]
    send_command_outcome [where device_id = "''xyz''" and st = "on_disconnect 0 example_state"
      and e = example_env and now = 0 and command = "Some ''fan_on''" and ps = None
      and issued_by = None]
    send_command_outcome [where device_id = "''nope''" and st = example_state
      and e = example_env and now = 0 and command = "Some ''fan_on''" and ps = None
      and issued_by = None]
    send_command_outcome [where device_id = "''xyz''" and st = example_state
      and e = example_env and now = 0 and command = None and ps = None and issued_by = None]
  by (simp add: example_defs service_defs)

subsection \<open>C8: the instant of a reading\<close>

text \<open>
  C8. For a telemetry body of a known device whose timestamp, when it has one, is text
  that \<^verbatim>\<open>fromisoformat\<close> reads, the handler stores exactly one reading, for that device;
  its \<^verbatim>\<open>recorded_at\<close> is the instant read from the timestamp when the body has one, and
  the instant of ingestion otherwise.
\<close>

theorem telemetry_recorded_at:
  assumes "find (\<lambda>d. d_device_id d = device_id) (devices st) = Some device"
    and "\<forall>text. p_timestamp body = Some text \<longrightarrow> fromisoformat e text \<noteq> None"
  shows "\<exists>sd. readings (handle_telemetry e now farm_id room_id device_id body st)
            = readings st @ [sd]
          \<and> s_device_id sd = device_id
          \<and> Some (s_recorded_at sd) =
              (case p_timestamp body of None \<Rightarrow> Some now | Some text \<Rightarrow> fromisoformat e text)"
proof -
  have "recorded_at e now body \<noteq> None"
    using assms(2) by (cases "p_timestamp body") (simp_all add: recorded_at_def)
  then obtain t where t: "recorded_at e now body = Some t"
    by auto
  have "readings (handle_telemetry e now farm_id room_id device_id body st)
      = readings st @ [new_reading farm_id room_id device_id body t]"
    using assms(1) t
    by (simp add: handle_telemetry_def Let_def)
       (simp add: socketio_emit_def add_reading_def mark_online_def)
  moreover have "s_recorded_at (new_reading farm_id room_id device_id body t) = t"
    "s_device_id (new_reading farm_id room_id device_id body t) = device_id"
    by (simp_all add: new_reading_def)
  ultimately show ?thesis
    using t by (auto simp: recorded_at_def)
qed

text \<open>C8 on a body with a timestamp and on a body without, both ingested at instant 7.\<close>

theorem telemetry_recorded_at_witness:
  "find (\<lambda>d. d_device_id d = ''xyz'') (devices example_state) = Some example_device
   \<and> fromisoformat example_env ''2024-05-01T12:00:00'' = Some 1714564800
   \<and> map s_recorded_at (readings (handle_telemetry example_env 7 ''abc'' ''r1'' ''xyz''
        (telemetry_body\<lparr>p_timestamp := Some ''2024-05-01T12:00:00''\<rparr>) example_state))
       = [1714564800]
   \<and> map s_recorded_at (readings (handle_telemetry example_env 7 ''abc'' ''r1'' ''xyz''
        telemetry_body example_state)) = [7]"
  using telemetry_recorded_at [where device_id = "''xyz''" and st = example_state
      and device = example_device and e = example_env and now = 7 and farm_id = "''abc''"
      and room_id = "''r1''"
      and body = "telemetry_body\<lparr>p_timestamp := Some ''2024-05-01T12:00:00''\<rparr>"]
    telemetry_recorded_at [where device_id = "''xyz''" and st = example_state
      and device = example_device and e = example_env and now = 7 and farm_id = "''abc''"
      and room_id = "''r1''" and body = telemetry_body]
  by (simp add: example_defs service_defs)

subsection \<open>C9: rules on other parameters\<close>

text \<open>
  C9. A rule whose parameter is none of temperature, humidity, co2, light and
  substrate_moisture has no sensor value in any reading: the loop skips it and never
  calls its action, whatever the reading holds, the battery voltage included.
\<close>

theorem unknown_parameter_never_triggers:
  assumes "r_parameter r \<noteq> ''temperature''" and "r_parameter r \<noteq> ''humidity''"
    and "r_parameter r \<noteq> ''co2''" and "r_parameter r \<noteq> ''light''"
    and "r_parameter r \<noteq> ''substrate_moisture''"
  shows "sensor_value r sd = None
       \<and> r \<notin> set (action_calls e rs sd)
       \<and> rules_loop e exec err (r # rs) sd st = rules_loop e exec err rs sd st"
proof -
  have "sensor_value r sd = None" using assms by (simp add: sensor_value_def)
  then show ?thesis by (simp add: action_calls_filter rule_fires_def)
qed

text \<open>
  C9 on the rule \<^verbatim>\<open>battery > 3\<close> and a reading with a battery voltage of 5: only the
  temperature rule is called.
\<close>

theorem unknown_parameter_never_triggers_witness:
  "r_parameter battery_rule = ''battery''
   \<and> s_battery_v warm_reading = Some 5
   \<and> r_comparator battery_rule = ''>'' \<and> r_threshold battery_rule = Some 3
   \<and> sensor_value battery_rule warm_reading = None
   \<and> battery_rule \<notin> set (action_calls example_env [example_rule, battery_rule] warm_reading)
   \<and> action_calls example_env [example_rule, battery_rule] warm_reading = [example_rule]"
  using unknown_parameter_never_triggers [where r = battery_rule and sd = warm_reading
      and rs = "[example_rule, battery_rule]" and e = example_env]
  by (simp add: example_defs service_defs action_calls_def)

subsection \<open>C10: who may acknowledge\<close>

text \<open>
  C10. A status message that carries the \<^verbatim>\<open>command_id\<close> of an existing command sets the
  status of that command whatever farm, room and device the topic names: the command
  table after the handler does not depend on them, and the device id is never compared
  with the device of the command.
\<close>

theorem ack_ignores_sender:
  assumes "p_command_id body = Some cid"
    and "find (\<lambda>c. c_command_id c = cid) (commands st) = Some cmd"
  shows "find (\<lambda>c. c_command_id c = cid)
            (commands (handle_status now farm_id room_id device_id body st))
           = Some (cmd\<lparr>c_status := ack_status body\<rparr>)
       \<and> commands (handle_status now farm_id room_id device_id body st)
           = commands (handle_status now' farm_id' room_id' device_id' body st)"
proof -
  let ?P = "\<lambda>c. c_command_id c = cid" and ?f = "\<lambda>c. c\<lparr>c_status := ack_status body\<rparr>"
  have a: "commands (handle_status n f r d body st) = update_first ?P ?f (commands st)" for n f r d
    by (simp add: commands_handle_status commands_handle_ack assms(1))
  have "?P cmd" using assms(2) by (auto dest: find_Some_iff [THEN iffD1])
  then have b: "find ?P (update_first ?P ?f (commands st)) = Some (?f cmd)"
    using assms(2) by (intro find_update_first) simp_all
  show ?thesis by (simp add: a b)
qed

text \<open>
  C10 on the command \<^verbatim>\<open>c0\<close> of device \<^verbatim>\<open>xyz\<close>, acknowledged on the topic of another
  device of another farm.
\<close>

theorem ack_ignores_sender_witness:
  "p_command_id (the (m_payload ack_c0)) = Some ''c0''
   \<and> find (\<lambda>c. c_command_id c = ''c0'') (commands sent_state) = Some example_command
   \<and> c_device_id example_command \<noteq> ''other''
   \<and> find (\<lambda>c. c_command_id c = ''c0'')
        (commands (handle_status 9 ''farm2'' ''room2'' ''other'' (the (m_payload ack_c0))
           sent_state))
       = Some (example_command\<lparr>c_status := ''acked''\<rparr>)"
  using ack_ignores_sender [where body = "the (m_payload ack_c0)" and cid = "''c0''"
      and st = sent_state and cmd = example_command and now = 9 and farm_id = "''farm2''"
      and room_id = "''room2''" and device_id = "''other''" and now' = 9 and farm_id' = "''abc''"
      and room_id' = "''r1''" and device_id' = "''xyz''"]
  by (simp add: example_defs service_defs)

end
